theory Spec2Isabelle
  imports Complex_Main
begin

section \<open>Python values and objects\<close>

text \<open>
  The module \<^verbatim>\<open>habitat_sim/utils/settings.py\<close> turns a settings dictionary into the
  configuration objects of the simulator. Its values are dynamically typed, so the model
  has one type of Python values. A float literal is the real number it denotes (the code
  does no arithmetic on floats, it only stores them). A member of an engine enumeration
  such as \<^verbatim>\<open>habitat_sim.SensorType.COLOR\<close> is the pair of the enumeration's name and the
  member's name. A dictionary value is the list of its items in insertion order; its keys
  are strings, and in a dictionary that Python can build they are distinct.
\<close>

datatype pyval =
    VNone
  | VBool bool
  | VInt int
  | VFloat real
  | VStr string
  | VList "pyval list"
  | VDict "(string \<times> pyval) list"
  | VEnum string string

text \<open>
  The attributes of an object form a map from attribute name to value: \<^verbatim>\<open>o.k = v\<close> and
  \<^verbatim>\<open>setattr(o, k, v)\<close> are the map update, \<^verbatim>\<open>hasattr(o, k)\<close> is \<open>o k \<noteq> None\<close>. The
  conversions and checks that the engine's bindings perform on assignment are not part of
  this module and are not modelled: an assignment stores the value it is given.
\<close>

type_synonym attrs = "string \<rightharpoonup> pyval"

text \<open>The settings argument of \<^verbatim>\<open>make_cfg\<close> is only read by key, so it is a map.\<close>

type_synonym settings = "string \<rightharpoonup> pyval"

datatype error =
    KeyError string
  | AttributeError string
  | TypeError string
  | RuntimeError string

text \<open>
  The package \<^verbatim>\<open>habitat_sim\<close> is imported, not defined, by the module. What the module
  needs of it is a parameter: the attributes that each freshly constructed object carries.
\<close>

record engine =
  new_SimulatorConfiguration :: attrs
  new_CameraSensorSpec :: attrs
  new_FisheyeSensorDoubleSphereSpec :: attrs
  new_EquirectangularSensorSpec :: attrs
  new_AgentConfiguration :: attrs

datatype sensor_class =
    CameraSensorSpec
  | FisheyeSensorDoubleSphereSpec
  | EquirectangularSensorSpec

record sensor_spec =
  spec_class :: sensor_class
  spec_attrs :: attrs

text \<open>\<^verbatim>\<open>ActuationSpec(amount=a)\<close> and \<^verbatim>\<open>ActionSpec(name, actuation)\<close> are constructor calls.\<close>

datatype ActuationSpec = ActuationSpec (amount: pyval)

datatype ActionSpec = ActionSpec string ActuationSpec

text \<open>
  An agent configuration: the attributes \<^verbatim>\<open>AgentConfiguration()\<close> came with, and the two
  attributes that \<^verbatim>\<open>make_cfg\<close> assigns.
\<close>

record AgentConfiguration =
  agent_attrs :: attrs
  sensor_specifications :: "sensor_spec list"
  action_space :: "(string \<times> ActionSpec) list"

text \<open>\<^verbatim>\<open>habitat_sim.Configuration(sim_cfg, [agent_cfg])\<close>.\<close>

record Configuration =
  sim_cfg :: attrs
  agents :: "AgentConfiguration list"

section \<open>The module-level tables\<close>


definition default_sensor_settings :: "(string \<times> pyval) list" where
  "default_sensor_settings =
     [(''hfov'', VInt 90),
      (''position'', VList [VInt 0, VFloat 1.5, VInt 0]),
      (''orientation'', VList [VInt 0, VInt 0, VInt 0])]"

section \<open>Helpers for Python's primitives\<close>

text \<open>\<^verbatim>\<open>d[k]\<close>: the value, or \<^verbatim>\<open>KeyError\<close>.\<close>

definition getitem :: "(string \<rightharpoonup> pyval) \<Rightarrow> string \<Rightarrow> error + pyval" where
  "getitem d k = (case d k of None \<Rightarrow> Inl (KeyError k) | Some v \<Rightarrow> Inr v)"

text \<open>\<^verbatim>\<open>d.get(k, dflt)\<close>.\<close>

definition get_default :: "(string \<rightharpoonup> pyval) \<Rightarrow> string \<Rightarrow> pyval \<Rightarrow> pyval" where
  "get_default d k dflt = (case d k of None \<Rightarrow> dflt | Some v \<Rightarrow> v)"

text \<open>\<^verbatim>\<open>v.items()\<close>: only a dictionary has the method.\<close>

definition items :: "pyval \<Rightarrow> error + (string \<times> pyval) list" where
  "items v = (case v of VDict d \<Rightarrow> Inr d | _ \<Rightarrow> Inl (AttributeError ''items''))"

text \<open>\<^verbatim>\<open>{**a, **v}\<close>, read by key: the entries of \<open>v\<close> override those of \<open>a\<close>.\<close>

definition merge_into :: "(string \<times> pyval) list \<Rightarrow> pyval \<Rightarrow> error + (string \<rightharpoonup> pyval)" where
  "merge_into a v =
     (case v of VDict d \<Rightarrow> Inr (map_of a ++ map_of d)
      | _ \<Rightarrow> Inl (TypeError ''not a mapping''))"

text \<open>\<^verbatim>\<open>sub in s\<close> on strings: \<open>sub\<close> occurs in \<open>s\<close> as a contiguous substring.\<close>

fun str_contains :: "string \<Rightarrow> string \<Rightarrow> bool" where
  "str_contains sub [] = (sub = [])"
| "str_contains sub (c # cs) = (take (length sub) (c # cs) = sub \<or> str_contains sub cs)"

text \<open>Sequencing of steps that may raise.\<close>

definition bind_err :: "error + 'a \<Rightarrow> ('a \<Rightarrow> error + 'b) \<Rightarrow> error + 'b" where
  "bind_err r f = (case r of Inl e \<Rightarrow> Inl e | Inr x \<Rightarrow> f x)"

text \<open>The loop \<^verbatim>\<open>for k in kw_args: setattr(obj, k, kw_args[k])\<close>.\<close>

fun setattrs :: "attrs \<Rightarrow> (string \<times> pyval) list \<Rightarrow> attrs" where
  "setattrs obj [] = obj"
| "setattrs obj ((k, v) # kw) = setattrs (obj(k \<mapsto> v)) kw"

section \<open>make_cfg\<close>

subsection \<open>The three nested constructors (lines 54 to 86)\<close>

definition create_camera_spec :: "engine \<Rightarrow> (string \<times> pyval) list \<Rightarrow> sensor_spec" where
  "create_camera_spec eng kw_args =
     \<lparr>spec_class = CameraSensorSpec,
      spec_attrs = setattrs (new_CameraSensorSpec eng) kw_args\<rparr>"

definition create_fisheye_spec :: "engine \<Rightarrow> (string \<times> pyval) list \<Rightarrow> sensor_spec" where
  "create_fisheye_spec eng kw_args =
     \<lparr>spec_class = FisheyeSensorDoubleSphereSpec,
      spec_attrs = setattrs
        ((new_FisheyeSensorDoubleSphereSpec eng)
           (''sensor_model_type'' \<mapsto> VEnum ''FisheyeSensorModelType'' ''DOUBLE_SPHERE'',
            ''xi'' \<mapsto> VFloat (- 0.27),
            ''alpha'' \<mapsto> VFloat 0.57,
            ''focal_length'' \<mapsto> VList [VFloat 364.84, VFloat 364.86],
            ''principal_point_offset'' \<mapsto> VNone))
        kw_args\<rparr>"

definition create_equirect_spec :: "engine \<Rightarrow> (string \<times> pyval) list \<Rightarrow> sensor_spec" where
  "create_equirect_spec eng kw_args =
     \<lparr>spec_class = EquirectangularSensorSpec,
      spec_attrs = setattrs (new_EquirectangularSensorSpec eng) kw_args\<rparr>"

subsection \<open>The body of the sensor loop (lines 90 to 128)\<close>

text \<open>
  Keyword arguments are evaluated left to right, so the first missing key decides the
  error. The test \<^verbatim>\<open>sensor_type is habitat_sim.SensorType.COLOR\<close> is equality with the
  enumeration member.
\<close>

definition sensor_spec_of :: "engine \<Rightarrow> settings \<Rightarrow> string \<Rightarrow> pyval \<Rightarrow> error + sensor_spec" where
  "sensor_spec_of eng settings uuid sensor_cfg0 =
     bind_err (merge_into default_sensor_settings sensor_cfg0) (\<lambda>sensor_cfg.
       let sensor_type = get_default sensor_cfg ''sensor_type'' (VEnum ''SensorType'' ''COLOR'');
           sensor_subtype = get_default sensor_cfg ''sensor_subtype'' (VEnum ''SensorSubType'' ''PINHOLE'');
           channels = VInt (if sensor_type = VEnum ''SensorType'' ''COLOR'' then 4 else 1)
       in
       if str_contains ''fisheye'' uuid then
         bind_err (getitem sensor_cfg ''position'') (\<lambda>position.
         bind_err (getitem sensor_cfg ''orientation'') (\<lambda>orientation.
         bind_err (getitem settings ''height'') (\<lambda>height.
         bind_err (getitem settings ''width'') (\<lambda>width.
           Inr (create_fisheye_spec eng
             [(''uuid'', VStr uuid),
              (''position'', position),
              (''orientation'', orientation),
              (''resolution'', VList [height, width]),
              (''sensor_type'', sensor_type),
              (''channels'', channels)])))))
       else if str_contains ''equirect'' uuid then
         bind_err (getitem sensor_cfg ''position'') (\<lambda>position.
         bind_err (getitem sensor_cfg ''orientation'') (\<lambda>orientation.
         bind_err (getitem settings ''height'') (\<lambda>height.
         bind_err (getitem settings ''width'') (\<lambda>width.
           Inr (create_equirect_spec eng
             [(''uuid'', VStr uuid),
              (''position'', position),
              (''orientation'', orientation),
              (''resolution'', VList [height, width]),
              (''sensor_type'', sensor_type),
              (''channels'', channels)])))))
       else
         bind_err (getitem sensor_cfg ''hfov'') (\<lambda>hfov.
         bind_err (getitem sensor_cfg ''position'') (\<lambda>position.
         bind_err (getitem sensor_cfg ''orientation'') (\<lambda>orientation.
         bind_err (getitem settings ''height'') (\<lambda>height.
         bind_err (getitem settings ''width'') (\<lambda>width.
           Inr (create_camera_spec eng
             [(''uuid'', VStr uuid),
              (''hfov'', hfov),
              (''position'', position),
              (''orientation'', orientation),
              (''resolution'', VList [height, width]),
              (''sensor_type'', sensor_type),
              (''sensor_subtype'', sensor_subtype),
              (''channels'', channels)])))))))"

subsection \<open>The sensor loop (line 88), appending to sensor_specs\<close>

fun sensor_loop ::
  "engine \<Rightarrow> settings \<Rightarrow> (string \<times> pyval) list \<Rightarrow> sensor_spec list \<Rightarrow> error + sensor_spec list"
where
  "sensor_loop eng settings [] sensor_specs = Inr sensor_specs"
| "sensor_loop eng settings ((uuid, sensor_cfg) # rest) sensor_specs =
     bind_err (sensor_spec_of eng settings uuid sensor_cfg) (\<lambda>spec.
       sensor_loop eng settings rest (sensor_specs @ [spec]))"

subsection \<open>The simulator configuration (lines 34 to 44)\<close>

text \<open>\<^verbatim>\<open>if k in settings: sim_cfg.k = settings[k]\<close>.\<close>

definition copy_if_present :: "settings \<Rightarrow> string \<Rightarrow> attrs \<Rightarrow> attrs" where
  "copy_if_present settings k obj =
     (case settings k of None \<Rightarrow> obj | Some v \<Rightarrow> obj(k \<mapsto> v))"

definition make_sim_cfg :: "engine \<Rightarrow> settings \<Rightarrow> attrs" where
  "make_sim_cfg eng settings =
     (let c = new_SimulatorConfiguration eng;
          c = copy_if_present settings ''scene_dataset_config_file'' c;
          c = c(''frustum_culling'' \<mapsto> get_default settings ''frustum_culling'' (VBool False));
          c = copy_if_present settings ''enable_physics'' c;
          c = copy_if_present settings ''physics_config_file'' c;
          c = copy_if_present settings ''scene_light_setup'' c
      in c(''gpu_device_id'' \<mapsto> VInt 0))"

subsection \<open>The agent configuration (lines 131 to 143)\<close>

definition make_agent_cfg :: "engine \<Rightarrow> sensor_spec list \<Rightarrow> AgentConfiguration" where
  "make_agent_cfg eng sensor_specs =
     \<lparr>agent_attrs = new_AgentConfiguration eng,
      sensor_specifications = sensor_specs,
      action_space =
        [(''move_forward'', ActionSpec ''move_forward'' (ActuationSpec (VFloat 0.25))),
         (''turn_left'', ActionSpec ''turn_left'' (ActuationSpec (VFloat 10.0))),
         (''turn_right'', ActionSpec ''turn_right'' (ActuationSpec (VFloat 10.0)))]\<rparr>"

subsection \<open>The function\<close>

definition version_mismatch :: string where
  "version_mismatch =
     ''Error: Please upgrade habitat-sim. SimulatorConfig API version mismatch''"

definition make_cfg :: "engine \<Rightarrow> settings \<Rightarrow> error + Configuration" where
  "make_cfg eng settings =
     (let c = make_sim_cfg eng settings in
      if c ''scene_id'' = None then Inl (RuntimeError version_mismatch)
      else
        bind_err (getitem settings ''scene'') (\<lambda>scene.
        bind_err (getitem settings ''sensors'') (\<lambda>sensors.
        bind_err (items sensors) (\<lambda>its.
        bind_err (sensor_loop eng settings its []) (\<lambda>sensor_specs.
          Inr \<lparr>sim_cfg = c(''scene_id'' \<mapsto> scene),
               agents = [make_agent_cfg eng sensor_specs]\<rparr>)))))"

section \<open>A concrete engine and a concrete input\<close>

text \<open>
  An engine whose simulator configuration has the attribute \<^verbatim>\<open>scene_id\<close>, and a settings
  dictionary with four sensors, one of each kind and one with an overridden field of view.
  They give the theorems below concrete instances.
\<close>

definition example_engine :: engine where
  "example_engine =
     \<lparr>new_SimulatorConfiguration =
        [''scene_id'' \<mapsto> VStr ''NONE'', ''enable_physics'' \<mapsto> VBool False,
         ''gpu_device_id'' \<mapsto> VInt 0],
      new_CameraSensorSpec = Map.empty,
      new_FisheyeSensorDoubleSphereSpec = Map.empty,
      new_EquirectangularSensorSpec = Map.empty,
      new_AgentConfiguration = Map.empty\<rparr>"

definition example_sensors :: "(string \<times> pyval) list" where
  "example_sensors =
     [(''color_sensor'', VDict []),
      (''wide_sensor'', VDict [(''hfov'', VInt 75)]),
      (''fisheye_sensor'',
         VDict [(''xi'', VFloat 0.5), (''sensor_type'', VEnum ''SensorType'' ''DEPTH'')]),
      (''equirect_sensor'', VDict [(''position'', VList [VInt 0, VInt 1, VInt 0])])]"

definition example_settings :: settings where
  "example_settings =
     [''scene'' \<mapsto> VStr ''apartment.glb'',
      ''height'' \<mapsto> VInt 480,
      ''width'' \<mapsto> VInt 640,
      ''gpu_device_id'' \<mapsto> VInt 3,
      ''physics_config_file'' \<mapsto> VStr ''physics.json'',
      ''sensors'' \<mapsto> VDict example_sensors]"

definition example_specs :: "sensor_spec list" where
  "example_specs =
     [create_camera_spec example_engine
        [(''uuid'', VStr ''color_sensor''), (''hfov'', VInt 90),
         (''position'', VList [VInt 0, VFloat 1.5, VInt 0]),
         (''orientation'', VList [VInt 0, VInt 0, VInt 0]),
         (''resolution'', VList [VInt 480, VInt 640]),
         (''sensor_type'', VEnum ''SensorType'' ''COLOR''),
         (''sensor_subtype'', VEnum ''SensorSubType'' ''PINHOLE''),
         (''channels'', VInt 4)],
      create_camera_spec example_engine
        [(''uuid'', VStr ''wide_sensor''), (''hfov'', VInt 75),
         (''position'', VList [VInt 0, VFloat 1.5, VInt 0]),
         (''orientation'', VList [VInt 0, VInt 0, VInt 0]),
         (''resolution'', VList [VInt 480, VInt 640]),
         (''sensor_type'', VEnum ''SensorType'' ''COLOR''),
         (''sensor_subtype'', VEnum ''SensorSubType'' ''PINHOLE''),
         (''channels'', VInt 4)],
      create_fisheye_spec example_engine
        [(''uuid'', VStr ''fisheye_sensor''),
         (''position'', VList [VInt 0, VFloat 1.5, VInt 0]),
         (''orientation'', VList [VInt 0, VInt 0, VInt 0]),
         (''resolution'', VList [VInt 480, VInt 640]),
         (''sensor_type'', VEnum ''SensorType'' ''DEPTH''),
         (''channels'', VInt 1)],
      create_equirect_spec example_engine
        [(''uuid'', VStr ''equirect_sensor''),
         (''position'', VList [VInt 0, VInt 1, VInt 0]),
         (''orientation'', VList [VInt 0, VInt 0, VInt 0]),
         (''resolution'', VList [VInt 480, VInt 640]),
         (''sensor_type'', VEnum ''SensorType'' ''COLOR''),
         (''channels'', VInt 4)]]"

definition example_agent :: AgentConfiguration where
  "example_agent = make_agent_cfg example_engine example_specs"

definition example_cfg :: Configuration where
  "example_cfg =
     \<lparr>sim_cfg = (make_sim_cfg example_engine example_settings)(''scene_id'' \<mapsto> VStr ''apartment.glb''),
      agents = [example_agent]\<rparr>"

text \<open>
  An engine of an older interface, whose simulator configuration has no attribute
  \<^verbatim>\<open>scene_id\<close>: the case that the guard at lines 45 to 48 is written for.
\<close>

definition legacy_engine :: engine where
  "legacy_engine =
     \<lparr>new_SimulatorConfiguration =
        [''enable_physics'' \<mapsto> VBool False, ''gpu_device_id'' \<mapsto> VInt 0],
      new_CameraSensorSpec = Map.empty,
      new_FisheyeSensorDoubleSphereSpec = Map.empty,
      new_EquirectangularSensorSpec = Map.empty,
      new_AgentConfiguration = Map.empty\<rparr>"

text \<open>A fisheye and an equirectangular sensor whose options both supply a field of view.\<close>

definition hfov_sensors :: "(string \<times> pyval) list" where
  "hfov_sensors =
     [(''fisheye_sensor'', VDict [(''hfov'', VInt 75)]),
      (''equirect_sensor'', VDict [(''hfov'', VInt 75)])]"

definition hfov_settings :: settings where
  "hfov_settings =
     [''scene'' \<mapsto> VStr ''apartment.glb'',
      ''height'' \<mapsto> VInt 480,
      ''width'' \<mapsto> VInt 640,
      ''sensors'' \<mapsto> VDict hfov_sensors]"

definition hfov_specs :: "sensor_spec list" where
  "hfov_specs =
     [create_fisheye_spec example_engine
        [(''uuid'', VStr ''fisheye_sensor''),
         (''position'', VList [VInt 0, VFloat 1.5, VInt 0]),
         (''orientation'', VList [VInt 0, VInt 0, VInt 0]),
         (''resolution'', VList [VInt 480, VInt 640]),
         (''sensor_type'', VEnum ''SensorType'' ''COLOR''),
         (''channels'', VInt 4)],
      create_equirect_spec example_engine
        [(''uuid'', VStr ''equirect_sensor''),
         (''position'', VList [VInt 0, VFloat 1.5, VInt 0]),
         (''orientation'', VList [VInt 0, VInt 0, VInt 0]),
         (''resolution'', VList [VInt 480, VInt 640]),
         (''sensor_type'', VEnum ''SensorType'' ''COLOR''),
         (''channels'', VInt 4)]]"

definition hfov_agent :: AgentConfiguration where
  "hfov_agent = make_agent_cfg example_engine hfov_specs"

definition hfov_cfg :: Configuration where
  "hfov_cfg =
     \<lparr>sim_cfg = (make_sim_cfg example_engine hfov_settings)(''scene_id'' \<mapsto> VStr ''apartment.glb''),
      agents = [hfov_agent]\<rparr>"

section \<open>Facts about the helpers\<close>

lemma bind_err_Inl [simp]: "bind_err (Inl e) f = Inl e"
  by (simp add: bind_err_def)

lemma bind_err_Inr [simp]: "bind_err (Inr x) f = f x"
  by (simp add: bind_err_def)

lemma bind_err_eq_Inr: "bind_err r f = Inr y \<longleftrightarrow> (\<exists>x. r = Inr x \<and> f x = Inr y)"
  by (cases r) simp_all

lemma getitem_eq_Inr: "getitem d k = Inr v \<longleftrightarrow> d k = Some v"
  by (simp add: getitem_def split: option.splits)

lemma getitem_None: "d k = None \<Longrightarrow> getitem d k = Inl (KeyError k)"
  by (simp add: getitem_def)

lemma getitem_Some: "d k = Some v \<Longrightarrow> getitem d k = Inr v"
  by (simp add: getitem_def)

lemma items_eq_Inr: "items v = Inr d \<longleftrightarrow> v = VDict d"
  by (cases v) (simp_all add: items_def)

lemma merge_into_eq_Inr:
  "merge_into a v = Inr m \<longleftrightarrow> (\<exists>d. v = VDict d \<and> m = map_of a ++ map_of d)"
  by (cases v) (auto simp: merge_into_def)

lemma setattrs_apply:
  "setattrs obj kw k = (case map_of (rev kw) k of None \<Rightarrow> obj k | Some v \<Rightarrow> Some v)"
  by (induction kw arbitrary: obj) (auto simp: map_add_def split: option.splits)

lemma str_contains_iff: "str_contains sub s \<longleftrightarrow> (\<exists>p q. s = p @ sub @ q)"
proof (induction s)
  case Nil
  then show ?case by auto
next
  case (Cons c cs)
  show ?case
  proof
    assume "str_contains sub (c # cs)"
    then consider "take (length sub) (c # cs) = sub" | "str_contains sub cs" by auto
    then show "\<exists>p q. c # cs = p @ sub @ q"
    proof cases
      case 1
      then have "c # cs = [] @ sub @ drop (length sub) (c # cs)"
        by (metis append_Nil append_take_drop_id)
      then show ?thesis by blast
    next
      case 2
      then obtain p q where "cs = p @ sub @ q" using Cons.IH by blast
      then have "c # cs = (c # p) @ sub @ q" by simp
      then show ?thesis by blast
    qed
  next
    assume "\<exists>p q. c # cs = p @ sub @ q"
    then obtain p q where pq: "c # cs = p @ sub @ q" by blast
    show "str_contains sub (c # cs)"
    proof (cases p)
      case Nil
      then have "take (length sub) (c # cs) = sub" using pq by simp
      then show ?thesis by simp
    next
      case (Cons a p')
      then have "cs = p' @ sub @ q" using pq by simp
      then show ?thesis using Cons.IH by auto
    qed
  qed
qed

lemma sensor_loop_Inr:
  "sensor_loop eng st its acc = Inr specs \<Longrightarrow>
   \<exists>new. specs = acc @ new \<and>
     list_all2 (\<lambda>it spec. sensor_spec_of eng st (fst it) (snd it) = Inr spec) its new"
proof (induction its arbitrary: acc)
  case Nil
  then show ?case by simp
next
  case (Cons it its)
  obtain uuid c where it: "it = (uuid, c)" by (cases it)
  from Cons.prems obtain spec where
    s: "sensor_spec_of eng st uuid c = Inr spec" and
    r: "sensor_loop eng st its (acc @ [spec]) = Inr specs"
    by (auto simp: it bind_err_eq_Inr)
  from Cons.IH [OF r] obtain new where
    "specs = (acc @ [spec]) @ new"
    "list_all2 (\<lambda>it spec. sensor_spec_of eng st (fst it) (snd it) = Inr spec) its new"
    by blast
  then have "specs = acc @ (spec # new) \<and>
    list_all2 (\<lambda>it spec. sensor_spec_of eng st (fst it) (snd it) = Inr spec) (it # its) (spec # new)"
    using s it by simp
  then show ?case by blast
qed

lemma make_sim_cfg_scene_id:
  "make_sim_cfg eng st ''scene_id'' = new_SimulatorConfiguration eng ''scene_id''"
  by (simp add: make_sim_cfg_def copy_if_present_def Let_def split: option.splits)

lemma make_cfg_Inr:
  assumes "make_cfg eng st = Inr cfg"
  obtains scene ss specs where
    "new_SimulatorConfiguration eng ''scene_id'' \<noteq> None"
    "st ''scene'' = Some scene"
    "st ''sensors'' = Some (VDict ss)"
    "list_all2 (\<lambda>it spec. sensor_spec_of eng st (fst it) (snd it) = Inr spec) ss specs"
    "cfg = \<lparr>sim_cfg = (make_sim_cfg eng st)(''scene_id'' \<mapsto> scene),
            agents = [make_agent_cfg eng specs]\<rparr>"
proof -
  from assms have h: "make_sim_cfg eng st ''scene_id'' \<noteq> None"
    by (auto simp: make_cfg_def Let_def split: if_splits)
  with assms obtain scene sensors its specs where
    a: "getitem st ''scene'' = Inr scene" "getitem st ''sensors'' = Inr sensors"
       "items sensors = Inr its" "sensor_loop eng st its [] = Inr specs"
       "cfg = \<lparr>sim_cfg = (make_sim_cfg eng st)(''scene_id'' \<mapsto> scene),
            agents = [make_agent_cfg eng specs]\<rparr>"
    by (auto simp: make_cfg_def Let_def bind_err_eq_Inr)
  from sensor_loop_Inr [OF a(4)] have
    "list_all2 (\<lambda>it spec. sensor_spec_of eng st (fst it) (snd it) = Inr spec) its specs"
    by simp
  with a h show thesis
    using that [of scene its specs]
    by (simp add: getitem_eq_Inr items_eq_Inr make_sim_cfg_scene_id)
qed

section \<open>The loop body on a dictionary of options\<close>

lemma merged_hfov:
  "getitem (map_of default_sensor_settings ++ map_of d) ''hfov'' =
     Inr (get_default (map_of d) ''hfov'' (VInt 90))"
  by (simp add: getitem_def get_default_def default_sensor_settings_def map_add_def
      split: option.splits)

lemma merged_position:
  "getitem (map_of default_sensor_settings ++ map_of d) ''position'' =
     Inr (get_default (map_of d) ''position'' (VList [VInt 0, VFloat 1.5, VInt 0]))"
  by (simp add: getitem_def get_default_def default_sensor_settings_def map_add_def
      split: option.splits)

lemma merged_orientation:
  "getitem (map_of default_sensor_settings ++ map_of d) ''orientation'' =
     Inr (get_default (map_of d) ''orientation'' (VList [VInt 0, VInt 0, VInt 0]))"
  by (simp add: getitem_def get_default_def default_sensor_settings_def map_add_def
      split: option.splits)

lemma merged_sensor_type:
  "get_default (map_of default_sensor_settings ++ map_of d) ''sensor_type'' x =
     get_default (map_of d) ''sensor_type'' x"
  by (simp add: get_default_def default_sensor_settings_def map_add_def
      split: option.splits)

lemma merged_sensor_subtype:
  "get_default (map_of default_sensor_settings ++ map_of d) ''sensor_subtype'' x =
     get_default (map_of d) ''sensor_subtype'' x"
  by (simp add: get_default_def default_sensor_settings_def map_add_def
      split: option.splits)

lemmas merged_simps =
  merged_hfov merged_position merged_orientation merged_sensor_type merged_sensor_subtype

text \<open>What the loop body returns on a dictionary of options, by the keys present.\<close>

lemma sensor_spec_of_not_dict:
  "\<forall>d. c \<noteq> VDict d \<Longrightarrow> \<exists>e. sensor_spec_of eng st uuid c = Inl e"
  by (cases c) (simp_all add: sensor_spec_of_def merge_into_def)

lemma sensor_spec_of_no_height:
  "st ''height'' = None \<Longrightarrow> sensor_spec_of eng st uuid (VDict d) = Inl (KeyError ''height'')"
  by (simp add: sensor_spec_of_def merge_into_def merged_simps Let_def getitem_None)

lemma sensor_spec_of_no_width:
  "st ''height'' = Some h \<Longrightarrow> st ''width'' = None \<Longrightarrow>
   sensor_spec_of eng st uuid (VDict d) = Inl (KeyError ''width'')"
  by (simp add: sensor_spec_of_def merge_into_def merged_simps Let_def getitem_None getitem_Some)

lemma sensor_spec_of_ok:
  assumes "st ''height'' = Some h" "st ''width'' = Some w"
  shows "sensor_spec_of eng st uuid (VDict d) = Inr
    (let sensor_type = get_default (map_of d) ''sensor_type'' (VEnum ''SensorType'' ''COLOR'');
         sensor_subtype = get_default (map_of d) ''sensor_subtype'' (VEnum ''SensorSubType'' ''PINHOLE'');
         channels = VInt (if sensor_type = VEnum ''SensorType'' ''COLOR'' then 4 else 1);
         hfov = get_default (map_of d) ''hfov'' (VInt 90);
         position = get_default (map_of d) ''position'' (VList [VInt 0, VFloat 1.5, VInt 0]);
         orientation = get_default (map_of d) ''orientation'' (VList [VInt 0, VInt 0, VInt 0])
     in if str_contains ''fisheye'' uuid then
          create_fisheye_spec eng
             [(''uuid'', VStr uuid), (''position'', position), (''orientation'', orientation),
              (''resolution'', VList [h, w]), (''sensor_type'', sensor_type),
              (''channels'', channels)]
        else if str_contains ''equirect'' uuid then
          create_equirect_spec eng
             [(''uuid'', VStr uuid), (''position'', position), (''orientation'', orientation),
              (''resolution'', VList [h, w]), (''sensor_type'', sensor_type),
              (''channels'', channels)]
        else
          create_camera_spec eng
             [(''uuid'', VStr uuid), (''hfov'', hfov), (''position'', position),
              (''orientation'', orientation), (''resolution'', VList [h, w]),
              (''sensor_type'', sensor_type), (''sensor_subtype'', sensor_subtype),
              (''channels'', channels)])"
  using assms
  by (simp add: sensor_spec_of_def merge_into_def merged_simps Let_def getitem_Some)

lemma sensor_spec_of_Inr:
  assumes "sensor_spec_of eng st uuid c = Inr spec"
  obtains d h w where "c = VDict d" "st ''height'' = Some h" "st ''width'' = Some w"
proof -
  from assms obtain d where d: "c = VDict d"
    using sensor_spec_of_not_dict [of c eng st uuid] by auto
  from assms d obtain h where h: "st ''height'' = Some h"
    using sensor_spec_of_no_height [of st eng uuid d] by (cases "st ''height''") auto
  from assms d h obtain w where "st ''width'' = Some w"
    using sensor_spec_of_no_width [of st h eng uuid d] by (cases "st ''width''") auto
  with d h show thesis using that by blast
qed

lemma spec_class_of:
  assumes "sensor_spec_of eng st uuid c = Inr spec"
  shows "spec_class spec =
     (if str_contains ''fisheye'' uuid then FisheyeSensorDoubleSphereSpec
      else if str_contains ''equirect'' uuid then EquirectangularSensorSpec
      else CameraSensorSpec)"
proof -
  from assms obtain d h w where
    "c = VDict d" "st ''height'' = Some h" "st ''width'' = Some w"
    by (rule sensor_spec_of_Inr)
  with assms show ?thesis
    by (auto simp: sensor_spec_of_ok Let_def create_fisheye_spec_def create_equirect_spec_def
        create_camera_spec_def)
qed

lemma spec_common_attrs:
  assumes "sensor_spec_of eng st uuid (VDict d) = Inr spec"
    "st ''height'' = Some h" "st ''width'' = Some w"
  shows "spec_attrs spec ''uuid'' = Some (VStr uuid)"
    "spec_attrs spec ''position'' =
       Some (get_default (map_of d) ''position'' (VList [VInt 0, VFloat 1.5, VInt 0]))"
    "spec_attrs spec ''orientation'' =
       Some (get_default (map_of d) ''orientation'' (VList [VInt 0, VInt 0, VInt 0]))"
    "spec_attrs spec ''resolution'' = Some (VList [h, w])"
    "spec_attrs spec ''sensor_type'' =
       Some (get_default (map_of d) ''sensor_type'' (VEnum ''SensorType'' ''COLOR''))"
    "spec_attrs spec ''channels'' =
       Some (VInt (if get_default (map_of d) ''sensor_type'' (VEnum ''SensorType'' ''COLOR'')
                      = VEnum ''SensorType'' ''COLOR'' then 4 else 1))"
  using assms
  by (auto simp: sensor_spec_of_ok Let_def create_fisheye_spec_def create_equirect_spec_def
        create_camera_spec_def split: if_splits)

lemma spec_camera_attrs:
  assumes "sensor_spec_of eng st uuid (VDict d) = Inr spec"
    "spec_class spec = CameraSensorSpec"
  shows "spec_attrs spec ''hfov'' = Some (get_default (map_of d) ''hfov'' (VInt 90))"
    "spec_attrs spec ''sensor_subtype'' =
       Some (get_default (map_of d) ''sensor_subtype'' (VEnum ''SensorSubType'' ''PINHOLE''))"
proof -
  from assms(1) obtain h w where "st ''height'' = Some h" "st ''width'' = Some w"
    by (rule sensor_spec_of_Inr)
  with assms show "spec_attrs spec ''hfov'' = Some (get_default (map_of d) ''hfov'' (VInt 90))"
    "spec_attrs spec ''sensor_subtype'' =
       Some (get_default (map_of d) ''sensor_subtype'' (VEnum ''SensorSubType'' ''PINHOLE''))"
    by (auto simp: sensor_spec_of_ok Let_def create_fisheye_spec_def create_equirect_spec_def
        create_camera_spec_def split: if_splits)
qed

lemma spec_fisheye_attrs:
  assumes "sensor_spec_of eng st uuid c = Inr spec"
    "spec_class spec = FisheyeSensorDoubleSphereSpec"
  shows "spec_attrs spec ''sensor_model_type'' = Some (VEnum ''FisheyeSensorModelType'' ''DOUBLE_SPHERE'')"
    "spec_attrs spec ''xi'' = Some (VFloat (- 0.27))"
    "spec_attrs spec ''alpha'' = Some (VFloat 0.57)"
    "spec_attrs spec ''focal_length'' = Some (VList [VFloat 364.84, VFloat 364.86])"
    "spec_attrs spec ''principal_point_offset'' = Some VNone"
proof -
  from assms(1) obtain d h w where "c = VDict d" "st ''height'' = Some h" "st ''width'' = Some w"
    by (rule sensor_spec_of_Inr)
  with assms show "spec_attrs spec ''sensor_model_type'' = Some (VEnum ''FisheyeSensorModelType'' ''DOUBLE_SPHERE'')"
    "spec_attrs spec ''xi'' = Some (VFloat (- 0.27))"
    "spec_attrs spec ''alpha'' = Some (VFloat 0.57)"
    "spec_attrs spec ''focal_length'' = Some (VList [VFloat 364.84, VFloat 364.86])"
    "spec_attrs spec ''principal_point_offset'' = Some VNone"
    by (auto simp: sensor_spec_of_ok Let_def create_fisheye_spec_def create_equirect_spec_def
        create_camera_spec_def split: if_splits)
qed

section \<open>The run on the concrete input\<close>

lemma example_lookups:
  "example_settings ''scene'' = Some (VStr ''apartment.glb'')"
  "example_settings ''height'' = Some (VInt 480)"
  "example_settings ''width'' = Some (VInt 640)"
  "example_settings ''sensors'' = Some (VDict example_sensors)"
  "new_SimulatorConfiguration example_engine ''scene_id'' = Some (VStr ''NONE'')"
  by (simp_all add: example_settings_def example_engine_def)

lemma example_loop: "sensor_loop example_engine example_settings example_sensors [] = Inr example_specs"
  by (simp add: example_sensors_def example_specs_def sensor_spec_of_ok [OF example_lookups(2,3)]
      get_default_def)

lemma example_run: "make_cfg example_engine example_settings = Inr example_cfg"
  by (simp add: make_cfg_def make_sim_cfg_scene_id example_lookups getitem_def items_def
      example_loop example_cfg_def example_agent_def)

lemma example_agents: "example_agent \<in> set (agents example_cfg)"
  by (simp add: example_cfg_def)

lemma example_agent_specs: "sensor_specifications example_agent = example_specs"
  by (simp add: example_agent_def make_agent_cfg_def)

section \<open>The claims\<close>

lemma version_mismatch_first:
  "new_SimulatorConfiguration eng ''scene_id'' = None \<Longrightarrow>
   make_cfg eng settings = Inl (RuntimeError version_mismatch)"
  by (simp add: make_cfg_def make_sim_cfg_scene_id)

lemma legacy_lookups:
  "new_SimulatorConfiguration legacy_engine ''scene_id'' = None"
  by (simp add: legacy_engine_def)

text \<open>
  C1, as amended. A settings map without the key \<^verbatim>\<open>scene\<close> never yields a configuration,
  complete or partial. The error is Python's missing-key error for \<^verbatim>\<open>scene\<close> when the
  fresh simulator configuration object has the attribute \<^verbatim>\<open>scene_id\<close>; when it has not,
  the guard before the read raises the version-mismatch error instead.
\<close>

theorem missing_scene_fails:
  assumes "settings ''scene'' = None"
  shows "(\<forall>cfg. make_cfg eng settings \<noteq> Inr cfg) \<and>
         make_cfg eng settings =
           Inl (if new_SimulatorConfiguration eng ''scene_id'' = None
                then RuntimeError version_mismatch else KeyError ''scene'')"
proof (cases "new_SimulatorConfiguration eng ''scene_id''")
  case None
  then show ?thesis
    by (simp add: make_cfg_def make_sim_cfg_scene_id)
next
  case (Some y)
  with assms show ?thesis
    by (simp add: make_cfg_def make_sim_cfg_scene_id getitem_def)
qed

theorem missing_scene_fails_witness:
  "(example_settings(''scene'' := None)) ''scene'' = None \<and>
   new_SimulatorConfiguration example_engine ''scene_id'' = Some (VStr ''NONE'') \<and>
   make_cfg example_engine (example_settings(''scene'' := None)) = Inl (KeyError ''scene'') \<and>
   new_SimulatorConfiguration legacy_engine ''scene_id'' = None \<and>
   make_cfg legacy_engine (example_settings(''scene'' := None)) =
     Inl (RuntimeError version_mismatch)"
  using missing_scene_fails [of "example_settings(''scene'' := None)" example_engine]
    missing_scene_fails [of "example_settings(''scene'' := None)" legacy_engine]
  by (simp add: example_lookups legacy_lookups)

text \<open>
  The claim as first stated names the missing-key error for every such map. On the older
  engine the same map fails with the version-mismatch error, which is not a missing-key
  error.
\<close>

theorem missing_scene_error_counterexample:
  "(example_settings(''scene'' := None)) ''scene'' = None \<and>
   new_SimulatorConfiguration legacy_engine ''scene_id'' = None \<and>
   make_cfg legacy_engine (example_settings(''scene'' := None)) =
     Inl (RuntimeError version_mismatch) \<and>
   make_cfg legacy_engine (example_settings(''scene'' := None)) \<noteq> Inl (KeyError ''scene'')"
  using version_mismatch_first [of legacy_engine "example_settings(''scene'' := None)"]
  by (simp add: legacy_lookups)

lemma run_spec_at:
  assumes "make_cfg eng settings = Inr cfg"
    and "settings ''sensors'' = Some (VDict ss)"
    and "a \<in> set (agents cfg)"
  shows "list_all2 (\<lambda>it spec. sensor_spec_of eng settings (fst it) (snd it) = Inr spec)
           ss (sensor_specifications a)"
  using assms(1)
proof (rule make_cfg_Inr)
  fix scene ss' specs
  assume "settings ''sensors'' = Some (VDict ss')"
    and l: "list_all2 (\<lambda>it spec. sensor_spec_of eng settings (fst it) (snd it) = Inr spec) ss' specs"
    and c: "cfg = \<lparr>sim_cfg = (make_sim_cfg eng settings)(''scene_id'' \<mapsto> scene),
            agents = [make_agent_cfg eng specs]\<rparr>"
  with assms(2) have "ss' = ss" by simp
  moreover from c assms(3) have "sensor_specifications a = specs"
    by (simp add: make_agent_cfg_def)
  ultimately show ?thesis using l by simp
qed

lemma run_spec_nth:
  assumes "make_cfg eng settings = Inr cfg"
    and "settings ''sensors'' = Some (VDict ss)"
    and "a \<in> set (agents cfg)"
    and "i < length ss"
  shows "sensor_spec_of eng settings (fst (ss ! i)) (snd (ss ! i)) = Inr (sensor_specifications a ! i)"
  using run_spec_at [OF assms(1-3)] assms(4)
  by (simp add: list_all2_conv_all_nth)

text \<open>
  C3. The class of the descriptor built for a sensor entry depends on its identifier alone:
  fisheye if the identifier contains \<^verbatim>\<open>fisheye\<close>, otherwise equirectangular if it contains
  \<^verbatim>\<open>equirect\<close>, otherwise the pinhole camera; the entry's options play no part.
\<close>

theorem sensor_kind_by_identifier:
  assumes "make_cfg eng settings = Inr cfg"
    and "settings ''sensors'' = Some (VDict ss)"
    and "a \<in> set (agents cfg)"
    and "i < length ss"
    and "ss ! i = (uuid, sensor_cfg)"
  shows "spec_class (sensor_specifications a ! i) =
     (if (\<exists>p q. uuid = p @ ''fisheye'' @ q) then FisheyeSensorDoubleSphereSpec
      else if (\<exists>p q. uuid = p @ ''equirect'' @ q) then EquirectangularSensorSpec
      else CameraSensorSpec)"
  using run_spec_nth [OF assms(1-4)] assms(5)
  by (simp add: spec_class_of str_contains_iff)

theorem sensor_kind_by_identifier_witness:
  "make_cfg example_engine example_settings = Inr example_cfg \<and>
   example_settings ''sensors'' = Some (VDict example_sensors) \<and>
   example_agent \<in> set (agents example_cfg) \<and>
   (2::nat) < length example_sensors \<and>
   example_sensors ! 2 =
     (''fisheye_sensor'',
      VDict [(''xi'', VFloat 0.5), (''sensor_type'', VEnum ''SensorType'' ''DEPTH'')]) \<and>
   spec_class (sensor_specifications example_agent ! 2) = FisheyeSensorDoubleSphereSpec"
proof -
  have i: "(2::nat) < length example_sensors"
    and e: "example_sensors ! 2 =
     (''fisheye_sensor'',
      VDict [(''xi'', VFloat 0.5), (''sensor_type'', VEnum ''SensorType'' ''DEPTH'')])"
    by (simp_all add: example_sensors_def)
  have "str_contains ''fisheye'' ''fisheye_sensor''" by simp
  then have "\<exists>p q. ''fisheye_sensor'' = p @ ''fisheye'' @ q"
    by (simp only: str_contains_iff)
  with sensor_kind_by_identifier [OF example_run example_lookups(4) example_agents i e]
  show ?thesis using i e example_run example_lookups(4) example_agents by simp
qed

lemma spec_other_hfov:
  assumes "sensor_spec_of eng st uuid c = Inr spec"
  shows "spec_class spec = FisheyeSensorDoubleSphereSpec \<Longrightarrow>
           spec_attrs spec ''hfov'' = new_FisheyeSensorDoubleSphereSpec eng ''hfov''"
    and "spec_class spec = EquirectangularSensorSpec \<Longrightarrow>
           spec_attrs spec ''hfov'' = new_EquirectangularSensorSpec eng ''hfov''"
proof -
  from assms obtain d h w where
    "c = VDict d" "st ''height'' = Some h" "st ''width'' = Some w"
    by (rule sensor_spec_of_Inr)
  with assms show "spec_class spec = FisheyeSensorDoubleSphereSpec \<Longrightarrow>
           spec_attrs spec ''hfov'' = new_FisheyeSensorDoubleSphereSpec eng ''hfov''"
    and "spec_class spec = EquirectangularSensorSpec \<Longrightarrow>
           spec_attrs spec ''hfov'' = new_EquirectangularSensorSpec eng ''hfov''"
    by (auto simp: sensor_spec_of_ok Let_def create_fisheye_spec_def create_equirect_spec_def
        create_camera_spec_def split: if_splits)
qed

lemma hfov_lookups:
  "hfov_settings ''scene'' = Some (VStr ''apartment.glb'')"
  "hfov_settings ''height'' = Some (VInt 480)"
  "hfov_settings ''width'' = Some (VInt 640)"
  "hfov_settings ''sensors'' = Some (VDict hfov_sensors)"
  by (simp_all add: hfov_settings_def)

lemma hfov_loop: "sensor_loop example_engine hfov_settings hfov_sensors [] = Inr hfov_specs"
  by (simp add: hfov_sensors_def hfov_specs_def sensor_spec_of_ok [OF hfov_lookups(2,3)]
      get_default_def)

lemma hfov_run: "make_cfg example_engine hfov_settings = Inr hfov_cfg"
  by (simp add: make_cfg_def make_sim_cfg_scene_id example_lookups(5) hfov_lookups getitem_def
      items_def hfov_loop hfov_cfg_def hfov_agent_def)

lemma hfov_agents: "hfov_agent \<in> set (agents hfov_cfg)"
  by (simp add: hfov_cfg_def)

lemma hfov_agent_specs: "sensor_specifications hfov_agent = hfov_specs"
  by (simp add: hfov_agent_def make_agent_cfg_def)

text \<open>
  C2, as amended. For a sensor entry with options \<open>d\<close>, the effective settings are the
  template \<^verbatim>\<open>default_sensor_settings\<close> with every key of \<open>d\<close> overriding it. Every descriptor
  takes position and orientation from them. The field of view is passed to the pinhole
  constructor only: a pinhole descriptor has the template's 90 when \<open>d\<close> has no \<^verbatim>\<open>hfov\<close>
  and the entry's value (75, say) when it has, while a fisheye or equirectangular
  descriptor keeps the \<^verbatim>\<open>hfov\<close> attribute of the freshly constructed object, whatever \<open>d\<close>
  supplies.
\<close>

theorem sensor_settings_override:
  assumes "make_cfg eng settings = Inr cfg"
    and "settings ''sensors'' = Some (VDict ss)"
    and "a \<in> set (agents cfg)"
    and "i < length ss"
    and "ss ! i = (uuid, VDict d)"
  shows "merge_into default_sensor_settings (VDict d) =
           Inr (\<lambda>k. case map_of d k of Some v \<Rightarrow> Some v
                                      | None \<Rightarrow> map_of default_sensor_settings k) \<and>
         spec_attrs (sensor_specifications a ! i) ''position'' =
           Some (case map_of d ''position'' of Some v \<Rightarrow> v
                 | None \<Rightarrow> VList [VInt 0, VFloat 1.5, VInt 0]) \<and>
         spec_attrs (sensor_specifications a ! i) ''orientation'' =
           Some (case map_of d ''orientation'' of Some v \<Rightarrow> v
                 | None \<Rightarrow> VList [VInt 0, VInt 0, VInt 0]) \<and>
         (spec_class (sensor_specifications a ! i) = CameraSensorSpec \<longrightarrow>
            spec_attrs (sensor_specifications a ! i) ''hfov'' =
              Some (case map_of d ''hfov'' of Some v \<Rightarrow> v | None \<Rightarrow> VInt 90)) \<and>
         (spec_class (sensor_specifications a ! i) = FisheyeSensorDoubleSphereSpec \<longrightarrow>
            spec_attrs (sensor_specifications a ! i) ''hfov'' =
              new_FisheyeSensorDoubleSphereSpec eng ''hfov'') \<and>
         (spec_class (sensor_specifications a ! i) = EquirectangularSensorSpec \<longrightarrow>
            spec_attrs (sensor_specifications a ! i) ''hfov'' =
              new_EquirectangularSensorSpec eng ''hfov'')"
proof -
  have s: "sensor_spec_of eng settings uuid (VDict d) = Inr (sensor_specifications a ! i)"
    using run_spec_nth [OF assms(1-4)] assms(5) by simp
  then obtain h w where hw: "settings ''height'' = Some h" "settings ''width'' = Some w"
    by (rule sensor_spec_of_Inr)
  have "merge_into default_sensor_settings (VDict d) =
           Inr (\<lambda>k. case map_of d k of Some v \<Rightarrow> Some v
                                      | None \<Rightarrow> map_of default_sensor_settings k)"
    by (auto simp: merge_into_def map_add_def split: option.splits)
  moreover note spec_common_attrs(2,3) [OF s hw]
  moreover have "spec_class (sensor_specifications a ! i) = CameraSensorSpec \<Longrightarrow>
            spec_attrs (sensor_specifications a ! i) ''hfov'' =
              Some (get_default (map_of d) ''hfov'' (VInt 90))"
    using spec_camera_attrs(1) [OF s] by simp
  moreover note spec_other_hfov [OF s]
  ultimately show ?thesis by (simp add: get_default_def split: option.splits)
qed

theorem sensor_settings_override_witness:
  "make_cfg example_engine example_settings = Inr example_cfg \<and>
   example_settings ''sensors'' = Some (VDict example_sensors) \<and>
   example_agent \<in> set (agents example_cfg) \<and>
   (1::nat) < length example_sensors \<and>
   example_sensors ! 1 = (''wide_sensor'', VDict [(''hfov'', VInt 75)]) \<and>
   spec_class (sensor_specifications example_agent ! 1) = CameraSensorSpec \<and>
   spec_attrs (sensor_specifications example_agent ! 1) ''hfov'' = Some (VInt 75) \<and>
   spec_attrs (sensor_specifications example_agent ! 1) ''position'' =
     Some (VList [VInt 0, VFloat 1.5, VInt 0]) \<and>
   (0::nat) < length example_sensors \<and>
   example_sensors ! 0 = (''color_sensor'', VDict []) \<and>
   spec_class (sensor_specifications example_agent ! 0) = CameraSensorSpec \<and>
   spec_attrs (sensor_specifications example_agent ! 0) ''hfov'' = Some (VInt 90) \<and>
   spec_attrs (sensor_specifications example_agent ! 0) ''position'' =
     Some (VList [VInt 0, VFloat 1.5, VInt 0]) \<and>
   spec_attrs (sensor_specifications example_agent ! 0) ''orientation'' =
     Some (VList [VInt 0, VInt 0, VInt 0]) \<and>
   make_cfg example_engine hfov_settings = Inr hfov_cfg \<and>
   hfov_settings ''sensors'' = Some (VDict hfov_sensors) \<and>
   hfov_agent \<in> set (agents hfov_cfg) \<and>
   (0::nat) < length hfov_sensors \<and>
   hfov_sensors ! 0 = (''fisheye_sensor'', VDict [(''hfov'', VInt 75)]) \<and>
   spec_class (sensor_specifications hfov_agent ! 0) = FisheyeSensorDoubleSphereSpec \<and>
   new_FisheyeSensorDoubleSphereSpec example_engine ''hfov'' = None \<and>
   spec_attrs (sensor_specifications hfov_agent ! 0) ''hfov'' = None \<and>
   (1::nat) < length hfov_sensors \<and>
   hfov_sensors ! 1 = (''equirect_sensor'', VDict [(''hfov'', VInt 75)]) \<and>
   spec_class (sensor_specifications hfov_agent ! 1) = EquirectangularSensorSpec \<and>
   new_EquirectangularSensorSpec example_engine ''hfov'' = None \<and>
   spec_attrs (sensor_specifications hfov_agent ! 1) ''hfov'' = None"
proof -
  have i: "(1::nat) < length example_sensors" "(0::nat) < length example_sensors"
    and e: "example_sensors ! 1 = (''wide_sensor'', VDict [(''hfov'', VInt 75)])"
      "example_sensors ! 0 = (''color_sensor'', VDict [])"
    by (simp_all add: example_sensors_def)
  have c: "spec_class (sensor_specifications example_agent ! 1) = CameraSensorSpec"
    "spec_class (sensor_specifications example_agent ! 0) = CameraSensorSpec"
    by (simp_all add: example_agent_specs example_specs_def create_camera_spec_def)
  have j: "(0::nat) < length hfov_sensors" "(1::nat) < length hfov_sensors"
    and f: "hfov_sensors ! 0 = (''fisheye_sensor'', VDict [(''hfov'', VInt 75)])"
      "hfov_sensors ! 1 = (''equirect_sensor'', VDict [(''hfov'', VInt 75)])"
    by (simp_all add: hfov_sensors_def)
  have k: "spec_class (sensor_specifications hfov_agent ! 0) = FisheyeSensorDoubleSphereSpec"
    "spec_class (sensor_specifications hfov_agent ! 1) = EquirectangularSensorSpec"
    by (simp_all add: hfov_agent_specs hfov_specs_def create_fisheye_spec_def
        create_equirect_spec_def)
  have n: "new_FisheyeSensorDoubleSphereSpec example_engine ''hfov'' = None"
    "new_EquirectangularSensorSpec example_engine ''hfov'' = None"
    by (simp_all add: example_engine_def)
  from sensor_settings_override [OF example_run example_lookups(4) example_agents i(1) e(1)]
    sensor_settings_override [OF example_run example_lookups(4) example_agents i(2) e(2)]
    sensor_settings_override [OF hfov_run hfov_lookups(4) hfov_agents j(1) f(1)]
    sensor_settings_override [OF hfov_run hfov_lookups(4) hfov_agents j(2) f(2)]
  show ?thesis
    using i e c j f k n example_run example_lookups(4) example_agents
      hfov_run hfov_lookups(4) hfov_agents
    by simp
qed

text \<open>
  The claim as first stated promises the field of view 75 to every sensor that supplies
  it. The fisheye entry below supplies 75, and its descriptor has no such field of view:
  no \<^verbatim>\<open>hfov\<close> is passed at lines 98 to 105.
\<close>

theorem fisheye_hfov_counterexample:
  "make_cfg example_engine hfov_settings = Inr hfov_cfg \<and>
   hfov_settings ''sensors'' = Some (VDict hfov_sensors) \<and>
   agents hfov_cfg = [hfov_agent] \<and>
   hfov_sensors ! 0 = (''fisheye_sensor'', VDict [(''hfov'', VInt 75)]) \<and>
   spec_attrs (sensor_specifications hfov_agent ! 0) ''uuid'' = Some (VStr ''fisheye_sensor'') \<and>
   spec_attrs (sensor_specifications hfov_agent ! 0) ''hfov'' = None \<and>
   spec_attrs (sensor_specifications hfov_agent ! 0) ''hfov'' \<noteq> Some (VInt 75)"
proof -
  have "sensor_specifications hfov_agent ! 0 =
      create_fisheye_spec example_engine
        [(''uuid'', VStr ''fisheye_sensor''),
         (''position'', VList [VInt 0, VFloat 1.5, VInt 0]),
         (''orientation'', VList [VInt 0, VInt 0, VInt 0]),
         (''resolution'', VList [VInt 480, VInt 640]),
         (''sensor_type'', VEnum ''SensorType'' ''COLOR''),
         (''channels'', VInt 4)]"
    by (simp add: hfov_agent_specs hfov_specs_def)
  then have "spec_attrs (sensor_specifications hfov_agent ! 0) ''uuid'' = Some (VStr ''fisheye_sensor'')"
    "spec_attrs (sensor_specifications hfov_agent ! 0) ''hfov'' = None"
    by (simp_all add: create_fisheye_spec_def example_engine_def)
  moreover have "agents hfov_cfg = [hfov_agent]"
    by (simp add: hfov_cfg_def)
  moreover have "hfov_sensors ! 0 = (''fisheye_sensor'', VDict [(''hfov'', VInt 75)])"
    by (simp add: hfov_sensors_def)
  ultimately show ?thesis
    using hfov_run hfov_lookups(4) by simp
qed

text \<open>
  C4. A successful call on \<open>n\<close> sensor entries produces \<open>n\<close> descriptors, and the resolution
  of every one of them is the list of the settings' \<^verbatim>\<open>height\<close> and \<^verbatim>\<open>width\<close>, whatever the
  entry's own options say.
\<close>

theorem shared_resolution:
  assumes "make_cfg eng settings = Inr cfg"
    and "settings ''sensors'' = Some (VDict ss)"
    and "a \<in> set (agents cfg)"
  shows "length (sensor_specifications a) = length ss \<and>
         (\<forall>spec \<in> set (sensor_specifications a).
            \<exists>h w. settings ''height'' = Some h \<and> settings ''width'' = Some w \<and>
                  spec_attrs spec ''resolution'' = Some (VList [h, w]))"
proof -
  note l = run_spec_at [OF assms]
  have "\<exists>h w. settings ''height'' = Some h \<and> settings ''width'' = Some w \<and>
                  spec_attrs spec ''resolution'' = Some (VList [h, w])"
    if "spec \<in> set (sensor_specifications a)" for spec
  proof -
    from that obtain i where i: "i < length (sensor_specifications a)"
      "spec = sensor_specifications a ! i"
      by (auto simp: in_set_conv_nth)
    with l have s: "sensor_spec_of eng settings (fst (ss ! i)) (snd (ss ! i)) = Inr spec"
      by (simp add: list_all2_conv_all_nth)
    then obtain d h w where
      d: "snd (ss ! i) = VDict d" and hw: "settings ''height'' = Some h" "settings ''width'' = Some w"
      by (rule sensor_spec_of_Inr)
    from s d have "sensor_spec_of eng settings (fst (ss ! i)) (VDict d) = Inr spec" by simp
    from spec_common_attrs(4) [OF this hw] hw show ?thesis by simp
  qed
  moreover from l have "length (sensor_specifications a) = length ss"
    by (simp add: list_all2_lengthD)
  ultimately show ?thesis by blast
qed

theorem shared_resolution_witness:
  "make_cfg example_engine example_settings = Inr example_cfg \<and>
   example_settings ''sensors'' = Some (VDict example_sensors) \<and>
   example_agent \<in> set (agents example_cfg) \<and>
   example_settings ''height'' = Some (VInt 480) \<and>
   example_settings ''width'' = Some (VInt 640) \<and>
   length (sensor_specifications example_agent) = 4 \<and>
   list_all (\<lambda>spec. spec_attrs spec ''resolution'' = Some (VList [VInt 480, VInt 640]))
     (sensor_specifications example_agent)"
proof -
  from shared_resolution [OF example_run example_lookups(4) example_agents]
  have "length (sensor_specifications example_agent) = length example_sensors"
    and "\<forall>spec \<in> set (sensor_specifications example_agent).
            spec_attrs spec ''resolution'' = Some (VList [VInt 480, VInt 640])"
    by (simp_all add: example_lookups)
  then show ?thesis
    using example_run example_lookups example_agents
    by (simp add: list_all_iff example_sensors_def)
qed

text \<open>
  C5. The descriptor's sensor type is the entry's \<^verbatim>\<open>sensor_type\<close>, or COLOR when the entry has
  none; its channel count is 4 when that type is COLOR and 1 for every other value.
\<close>

theorem channels_by_sensor_type:
  assumes "make_cfg eng settings = Inr cfg"
    and "settings ''sensors'' = Some (VDict ss)"
    and "a \<in> set (agents cfg)"
    and "i < length ss"
    and "ss ! i = (uuid, VDict d)"
  shows "spec_attrs (sensor_specifications a ! i) ''sensor_type'' =
           Some (case map_of d ''sensor_type'' of None \<Rightarrow> VEnum ''SensorType'' ''COLOR''
                 | Some t \<Rightarrow> t) \<and>
         spec_attrs (sensor_specifications a ! i) ''channels'' =
           Some (VInt (case map_of d ''sensor_type'' of None \<Rightarrow> 4
                       | Some t \<Rightarrow> if t = VEnum ''SensorType'' ''COLOR'' then 4 else 1))"
proof -
  have s: "sensor_spec_of eng settings uuid (VDict d) = Inr (sensor_specifications a ! i)"
    using run_spec_nth [OF assms(1-4)] assms(5) by simp
  then obtain h w where hw: "settings ''height'' = Some h" "settings ''width'' = Some w"
    by (rule sensor_spec_of_Inr)
  from spec_common_attrs(5,6) [OF s hw] show ?thesis
    by (simp add: get_default_def split: option.splits)
qed

theorem channels_by_sensor_type_witness:
  "make_cfg example_engine example_settings = Inr example_cfg \<and>
   example_settings ''sensors'' = Some (VDict example_sensors) \<and>
   example_agent \<in> set (agents example_cfg) \<and>
   (2::nat) < length example_sensors \<and>
   example_sensors ! 2 =
     (''fisheye_sensor'',
      VDict [(''xi'', VFloat 0.5), (''sensor_type'', VEnum ''SensorType'' ''DEPTH'')]) \<and>
   spec_attrs (sensor_specifications example_agent ! 2) ''channels'' = Some (VInt 1) \<and>
   (0::nat) < length example_sensors \<and>
   example_sensors ! 0 = (''color_sensor'', VDict []) \<and>
   spec_attrs (sensor_specifications example_agent ! 0) ''channels'' = Some (VInt 4)"
proof -
  have i: "(2::nat) < length example_sensors" "(0::nat) < length example_sensors"
    and e: "example_sensors ! 2 =
     (''fisheye_sensor'',
      VDict [(''xi'', VFloat 0.5), (''sensor_type'', VEnum ''SensorType'' ''DEPTH'')])"
      "example_sensors ! 0 = (''color_sensor'', VDict [])"
    by (simp_all add: example_sensors_def)
  from channels_by_sensor_type [OF example_run example_lookups(4) example_agents i(1) e(1)]
    channels_by_sensor_type [OF example_run example_lookups(4) example_agents i(2) e(2)]
  show ?thesis using i e example_run example_lookups(4) example_agents by simp
qed

lemma make_sim_cfg_apply:
  "make_sim_cfg eng st k =
     (if k = ''gpu_device_id'' then Some (VInt 0)
      else if k = ''frustum_culling'' then Some (get_default st ''frustum_culling'' (VBool False))
      else if k \<in> {''scene_dataset_config_file'', ''enable_physics'', ''physics_config_file'',
                    ''scene_light_setup''}
        then (case st k of Some v \<Rightarrow> Some v | None \<Rightarrow> new_SimulatorConfiguration eng k)
      else new_SimulatorConfiguration eng k)"
  by (auto simp: make_sim_cfg_def copy_if_present_def Let_def split: option.splits)

text \<open>
  C6. In the configuration of a successful call, each of \<^verbatim>\<open>scene_dataset_config_file\<close>,
  \<^verbatim>\<open>physics_config_file\<close>, \<^verbatim>\<open>scene_light_setup\<close> and \<^verbatim>\<open>enable_physics\<close> holds the settings'
  value when the key is present and the value of the fresh engine object when it is absent;
  \<^verbatim>\<open>frustum_culling\<close> is always assigned, \<^verbatim>\<open>False\<close> when the key is absent; and
  \<^verbatim>\<open>gpu_device_id\<close> is 0 whatever the settings hold.
\<close>

theorem sim_cfg_fields:
  assumes "make_cfg eng settings = Inr cfg"
  shows "(\<forall>k \<in> {''scene_dataset_config_file'', ''physics_config_file'', ''scene_light_setup'',
                 ''enable_physics''}.
            sim_cfg cfg k =
              (case settings k of Some v \<Rightarrow> Some v | None \<Rightarrow> new_SimulatorConfiguration eng k)) \<and>
         sim_cfg cfg ''frustum_culling'' =
           Some (case settings ''frustum_culling'' of Some v \<Rightarrow> v | None \<Rightarrow> VBool False) \<and>
         sim_cfg cfg ''gpu_device_id'' = Some (VInt 0)"
  using assms
proof (rule make_cfg_Inr)
  fix scene ss specs
  assume "cfg = \<lparr>sim_cfg = (make_sim_cfg eng settings)(''scene_id'' \<mapsto> scene),
            agents = [make_agent_cfg eng specs]\<rparr>"
  then show ?thesis
    by (simp add: make_sim_cfg_apply get_default_def)
qed

theorem sim_cfg_fields_witness:
  "make_cfg example_engine example_settings = Inr example_cfg \<and>
   example_settings ''physics_config_file'' = Some (VStr ''physics.json'') \<and>
   sim_cfg example_cfg ''physics_config_file'' = Some (VStr ''physics.json'') \<and>
   example_settings ''enable_physics'' = None \<and>
   new_SimulatorConfiguration example_engine ''enable_physics'' = Some (VBool False) \<and>
   sim_cfg example_cfg ''enable_physics'' = Some (VBool False) \<and>
   example_settings ''frustum_culling'' = None \<and>
   sim_cfg example_cfg ''frustum_culling'' = Some (VBool False) \<and>
   example_settings ''gpu_device_id'' = Some (VInt 3) \<and>
   sim_cfg example_cfg ''gpu_device_id'' = Some (VInt 0)"
proof -
  have l: "example_settings ''physics_config_file'' = Some (VStr ''physics.json'')"
    "example_settings ''enable_physics'' = None"
    "new_SimulatorConfiguration example_engine ''enable_physics'' = Some (VBool False)"
    "example_settings ''frustum_culling'' = None"
    "example_settings ''gpu_device_id'' = Some (VInt 3)"
    by (simp_all add: example_settings_def example_engine_def)
  from sim_cfg_fields [OF example_run] show ?thesis
    using l example_run by simp
qed

text \<open>
  C7. A successful call returns exactly one agent. Its sensor list holds, in the order of
  the \<^verbatim>\<open>sensors\<close> dictionary, the descriptor built for each entry, and its action table is
  the constant \<^verbatim>\<open>move_forward\<close> 0.25, \<^verbatim>\<open>turn_left\<close> 10, \<^verbatim>\<open>turn_right\<close> 10.
\<close>

theorem single_agent_fixed_actions:
  assumes "make_cfg eng settings = Inr cfg"
  shows "\<exists>a ss. agents cfg = [a] \<and>
           settings ''sensors'' = Some (VDict ss) \<and>
           list_all2 (\<lambda>it spec. sensor_spec_of eng settings (fst it) (snd it) = Inr spec)
             ss (sensor_specifications a) \<and>
           action_space a =
             [(''move_forward'', ActionSpec ''move_forward'' (ActuationSpec (VFloat 0.25))),
              (''turn_left'', ActionSpec ''turn_left'' (ActuationSpec (VFloat 10))),
              (''turn_right'', ActionSpec ''turn_right'' (ActuationSpec (VFloat 10)))]"
  using assms
proof (rule make_cfg_Inr)
  fix scene ss specs
  assume "settings ''sensors'' = Some (VDict ss)"
    "list_all2 (\<lambda>it spec. sensor_spec_of eng settings (fst it) (snd it) = Inr spec) ss specs"
    "cfg = \<lparr>sim_cfg = (make_sim_cfg eng settings)(''scene_id'' \<mapsto> scene),
            agents = [make_agent_cfg eng specs]\<rparr>"
  then show ?thesis
    by (simp add: make_agent_cfg_def)
qed

theorem single_agent_fixed_actions_witness:
  "make_cfg example_engine example_settings = Inr example_cfg \<and>
   agents example_cfg = [example_agent] \<and>
   sensor_specifications example_agent = example_specs \<and>
   map fst (action_space example_agent) = [''move_forward'', ''turn_left'', ''turn_right'']"
proof -
  from single_agent_fixed_actions [OF example_run] obtain a where
    "agents example_cfg = [a]"
    "action_space a =
             [(''move_forward'', ActionSpec ''move_forward'' (ActuationSpec (VFloat 0.25))),
              (''turn_left'', ActionSpec ''turn_left'' (ActuationSpec (VFloat 10))),
              (''turn_right'', ActionSpec ''turn_right'' (ActuationSpec (VFloat 10)))]"
    by blast
  then show ?thesis
    using example_run example_agent_specs by (simp add: example_cfg_def)
qed

lemma sensor_spec_of_cong:
  assumes "st ''height'' = st' ''height''" "st ''width'' = st' ''width''"
  shows "sensor_spec_of eng st uuid c = sensor_spec_of eng st' uuid c"
proof -
  have "getitem st ''height'' = getitem st' ''height''"
    "getitem st ''width'' = getitem st' ''width''"
    using assms by (simp_all add: getitem_def)
  then show ?thesis
    by (simp only: sensor_spec_of_def)
qed

lemma sensor_loop_cong:
  assumes "st ''height'' = st' ''height''" "st ''width'' = st' ''width''"
  shows "sensor_loop eng st its acc = sensor_loop eng st' its acc"
proof (induction its arbitrary: acc)
  case Nil
  show ?case by simp
next
  case (Cons it its)
  obtain uuid c where "it = (uuid, c)" by (cases it)
  then show ?case
    using Cons.IH sensor_spec_of_cong [OF assms] by simp
qed

lemma make_sim_cfg_cong:
  assumes "\<forall>k \<in> {''scene_dataset_config_file'', ''frustum_culling'', ''enable_physics'',
      ''physics_config_file'', ''scene_light_setup''}. st k = st' k"
  shows "make_sim_cfg eng st = make_sim_cfg eng st'"
  using assms by (simp add: make_sim_cfg_def copy_if_present_def get_default_def)

text \<open>
  C9. The outcome of a call, a configuration or an error, is a function of the engine's
  fresh objects and of the values that the settings hold under the nine keys the code
  reads. Two calls on the same settings therefore have the same outcome, and so have two
  calls on settings that differ in other keys only.
\<close>

theorem make_cfg_deterministic:
  assumes "\<forall>k \<in> {''scene_dataset_config_file'', ''frustum_culling'', ''enable_physics'',
      ''physics_config_file'', ''scene_light_setup'', ''scene'', ''sensors'', ''height'',
      ''width''}. settings k = settings' k"
  shows "make_cfg eng settings = make_cfg eng settings'"
proof -
  have "make_sim_cfg eng settings = make_sim_cfg eng settings'"
    using assms by (intro make_sim_cfg_cong) simp
  moreover have "getitem settings ''scene'' = getitem settings' ''scene''"
    "getitem settings ''sensors'' = getitem settings' ''sensors''"
    using assms by (simp_all add: getitem_def)
  moreover have "sensor_loop eng settings its [] = sensor_loop eng settings' its []" for its
    using assms by (intro sensor_loop_cong) simp_all
  ultimately show ?thesis
    by (simp only: make_cfg_def)
qed

theorem make_cfg_deterministic_witness:
  "make_cfg example_engine example_settings = Inr example_cfg \<and>
   (example_settings(''seed'' \<mapsto> VInt 7)) ''seed'' \<noteq> example_settings ''seed'' \<and>
   make_cfg example_engine (example_settings(''seed'' \<mapsto> VInt 7)) = Inr example_cfg"
proof -
  have "make_cfg example_engine (example_settings(''seed'' \<mapsto> VInt 7)) =
        make_cfg example_engine example_settings"
    by (rule make_cfg_deterministic) simp
  moreover have "example_settings ''seed'' = None"
    by (simp add: example_settings_def)
  ultimately show ?thesis using example_run by simp
qed








lemma setattrs_distinct:
  "distinct (map fst kw) \<Longrightarrow>
   setattrs obj kw k = (case map_of kw k of Some v \<Rightarrow> Some v | None \<Rightarrow> obj k)"
proof (induction kw arbitrary: obj)
  case Nil
  show ?case by simp
next
  case (Cons it kw)
  obtain k' v' where it: "it = (k', v')" by (cases it)
  with Cons.prems have d: "distinct (map fst kw)" and n: "k' \<notin> fst ` set kw" by simp_all
  from n have m: "map_of kw k' = None" by (simp add: map_of_eq_None_iff)
  have "setattrs obj (it # kw) k = setattrs (obj(k' \<mapsto> v')) kw k"
    using it by simp
  also have "\<dots> = (case map_of kw k of Some v \<Rightarrow> Some v | None \<Rightarrow> (obj(k' \<mapsto> v')) k)"
    by (rule Cons.IH [OF d])
  also have "\<dots> = (case map_of (it # kw) k of Some v \<Rightarrow> Some v | None \<Rightarrow> obj k)"
    using it m by (auto split: option.splits)
  finally show ?case .
qed

text \<open>
  C8, as amended. The descriptor of a sensor whose identifier contains \<^verbatim>\<open>fisheye\<close> holds
  the lens constants: xi -0.27, alpha 0.57, focal length [364.84, 364.86] and principal
  point offset \<^verbatim>\<open>None\<close>. Inside \<^verbatim>\<open>create_fisheye_spec\<close> the constants are assigned before the
  keyword arguments, so a keyword argument for such a field replaces the constant.
  \<^verbatim>\<open>make_cfg\<close> passes none of these fields as a keyword argument, so the entry's options
  cannot change them.
\<close>

theorem fisheye_lens_constants:
  assumes "make_cfg eng settings = Inr cfg"
    and "settings ''sensors'' = Some (VDict ss)"
    and "a \<in> set (agents cfg)"
    and "i < length ss"
    and "ss ! i = (uuid, sensor_cfg)"
    and "\<exists>p q. uuid = p @ ''fisheye'' @ q"
  shows "spec_attrs (sensor_specifications a ! i) ''xi'' = Some (VFloat (- 0.27)) \<and>
         spec_attrs (sensor_specifications a ! i) ''alpha'' = Some (VFloat 0.57) \<and>
         spec_attrs (sensor_specifications a ! i) ''focal_length'' =
           Some (VList [VFloat 364.84, VFloat 364.86]) \<and>
         spec_attrs (sensor_specifications a ! i) ''principal_point_offset'' = Some VNone \<and>
         (\<forall>kw k. distinct (map fst kw) \<longrightarrow>
            spec_attrs (create_fisheye_spec eng kw) k =
              (case map_of kw k of
                 Some v \<Rightarrow> Some v
               | None \<Rightarrow>
                   if k = ''xi'' then Some (VFloat (- 0.27))
                   else if k = ''alpha'' then Some (VFloat 0.57)
                   else if k = ''focal_length'' then Some (VList [VFloat 364.84, VFloat 364.86])
                   else if k = ''principal_point_offset'' then Some VNone
                   else if k = ''sensor_model_type''
                     then Some (VEnum ''FisheyeSensorModelType'' ''DOUBLE_SPHERE'')
                   else new_FisheyeSensorDoubleSphereSpec eng k))"
proof -
  have s: "sensor_spec_of eng settings uuid sensor_cfg = Inr (sensor_specifications a ! i)"
    using run_spec_nth [OF assms(1-4)] assms(5) by simp
  have "str_contains ''fisheye'' uuid"
    using assms(6) by (simp only: str_contains_iff)
  with spec_class_of [OF s]
  have c: "spec_class (sensor_specifications a ! i) = FisheyeSensorDoubleSphereSpec" by simp
  note spec_fisheye_attrs(2-5) [OF s c]
  moreover have "spec_attrs (create_fisheye_spec eng kw) k =
              (case map_of kw k of
                 Some v \<Rightarrow> Some v
               | None \<Rightarrow>
                   if k = ''xi'' then Some (VFloat (- 0.27))
                   else if k = ''alpha'' then Some (VFloat 0.57)
                   else if k = ''focal_length'' then Some (VList [VFloat 364.84, VFloat 364.86])
                   else if k = ''principal_point_offset'' then Some VNone
                   else if k = ''sensor_model_type''
                     then Some (VEnum ''FisheyeSensorModelType'' ''DOUBLE_SPHERE'')
                   else new_FisheyeSensorDoubleSphereSpec eng k)"
    if "distinct (map fst kw)" for kw k
    using that by (simp add: create_fisheye_spec_def setattrs_distinct split: option.splits)
  ultimately show ?thesis by blast
qed

theorem fisheye_lens_constants_witness:
  "make_cfg example_engine example_settings = Inr example_cfg \<and>
   example_settings ''sensors'' = Some (VDict example_sensors) \<and>
   example_agent \<in> set (agents example_cfg) \<and>
   (2::nat) < length example_sensors \<and>
   example_sensors ! 2 =
     (''fisheye_sensor'',
      VDict [(''xi'', VFloat 0.5), (''sensor_type'', VEnum ''SensorType'' ''DEPTH'')]) \<and>
   str_contains ''fisheye'' ''fisheye_sensor'' \<and>
   spec_attrs (sensor_specifications example_agent ! 2) ''xi'' = Some (VFloat (- 0.27)) \<and>
   spec_attrs (sensor_specifications example_agent ! 2) ''alpha'' = Some (VFloat 0.57) \<and>
   distinct (map fst [(''xi'', VFloat 0.5)]) \<and>
   spec_attrs (create_fisheye_spec example_engine [(''xi'', VFloat 0.5)]) ''xi'' =
     Some (VFloat 0.5) \<and>
   spec_attrs (create_fisheye_spec example_engine [(''xi'', VFloat 0.5)]) ''alpha'' =
     Some (VFloat 0.57)"
proof -
  have i: "(2::nat) < length example_sensors"
    and e: "example_sensors ! 2 =
     (''fisheye_sensor'',
      VDict [(''xi'', VFloat 0.5), (''sensor_type'', VEnum ''SensorType'' ''DEPTH'')])"
    by (simp_all add: example_sensors_def)
  have f: "str_contains ''fisheye'' ''fisheye_sensor''" by simp
  then have p: "\<exists>p q. ''fisheye_sensor'' = p @ ''fisheye'' @ q"
    by (simp only: str_contains_iff)
  note r = fisheye_lens_constants [OF example_run example_lookups(4) example_agents i e p]
  have d: "distinct (map fst [(''xi'', VFloat 0.5)])" by simp
  from r have k: "spec_attrs (create_fisheye_spec example_engine kw) k =
              (case map_of kw k of
                 Some v \<Rightarrow> Some v
               | None \<Rightarrow>
                   if k = ''xi'' then Some (VFloat (- 0.27))
                   else if k = ''alpha'' then Some (VFloat 0.57)
                   else if k = ''focal_length'' then Some (VList [VFloat 364.84, VFloat 364.86])
                   else if k = ''principal_point_offset'' then Some VNone
                   else if k = ''sensor_model_type''
                     then Some (VEnum ''FisheyeSensorModelType'' ''DOUBLE_SPHERE'')
                   else new_FisheyeSensorDoubleSphereSpec example_engine k)"
    if "distinct (map fst kw)" for kw k
    using that by blast
  have "spec_attrs (create_fisheye_spec example_engine [(''xi'', VFloat 0.5)]) ''xi'' =
     Some (VFloat 0.5)"
    "spec_attrs (create_fisheye_spec example_engine [(''xi'', VFloat 0.5)]) ''alpha'' =
     Some (VFloat 0.57)"
    using k [OF d, of "''xi''"] k [OF d, of "''alpha''"] by simp_all
  moreover from r have
    "spec_attrs (sensor_specifications example_agent ! 2) ''xi'' = Some (VFloat (- 0.27))"
    "spec_attrs (sensor_specifications example_agent ! 2) ''alpha'' = Some (VFloat 0.57)"
    by blast+
  ultimately show ?thesis
    using i e f d example_run example_lookups(4) example_agents by (simp only: simp_thms)
qed

text \<open>
  The claim as first stated fails on the settings: the options of the entry
  \<^verbatim>\<open>fisheye_sensor\<close> supply xi 0.5, and the descriptor's xi is still -0.27.
\<close>

theorem fisheye_settings_override_counterexample:
  "make_cfg example_engine example_settings = Inr example_cfg \<and>
   example_settings ''sensors'' = Some (VDict example_sensors) \<and>
   agents example_cfg = [example_agent] \<and>
   example_sensors ! 2 =
     (''fisheye_sensor'',
      VDict [(''xi'', VFloat 0.5), (''sensor_type'', VEnum ''SensorType'' ''DEPTH'')]) \<and>
   spec_class (sensor_specifications example_agent ! 2) = FisheyeSensorDoubleSphereSpec \<and>
   spec_attrs (sensor_specifications example_agent ! 2) ''uuid'' = Some (VStr ''fisheye_sensor'') \<and>
   spec_attrs (sensor_specifications example_agent ! 2) ''xi'' = Some (VFloat (- 0.27)) \<and>
   spec_attrs (sensor_specifications example_agent ! 2) ''xi'' \<noteq> Some (VFloat 0.5)"
proof -
  have "example_sensors ! 2 =
     (''fisheye_sensor'',
      VDict [(''xi'', VFloat 0.5), (''sensor_type'', VEnum ''SensorType'' ''DEPTH'')])"
    by (simp add: example_sensors_def)
  moreover have "agents example_cfg = [example_agent]"
    by (simp add: example_cfg_def)
  moreover have "sensor_specifications example_agent ! 2 =
      create_fisheye_spec example_engine
        [(''uuid'', VStr ''fisheye_sensor''),
         (''position'', VList [VInt 0, VFloat 1.5, VInt 0]),
         (''orientation'', VList [VInt 0, VInt 0, VInt 0]),
         (''resolution'', VList [VInt 480, VInt 640]),
         (''sensor_type'', VEnum ''SensorType'' ''DEPTH''),
         (''channels'', VInt 1)]"
    by (simp add: example_agent_specs example_specs_def)
  then have "spec_class (sensor_specifications example_agent ! 2) = FisheyeSensorDoubleSphereSpec"
    "spec_attrs (sensor_specifications example_agent ! 2) ''uuid'' = Some (VStr ''fisheye_sensor'')"
    "spec_attrs (sensor_specifications example_agent ! 2) ''xi'' = Some (VFloat (- 0.27))"
    by (simp_all add: create_fisheye_spec_def)
  ultimately show ?thesis
    using example_run example_lookups(4) by simp
qed

end
